theory Spec2Isabelle
  imports Main
begin

section \<open>Values and failures\<close>

text \<open>
  A document identifier is a string, as a name is: the lookups of the source pass
  either of them, untagged, to the same \<open>findDoc\<close>.
\<close>

type_synonym docID = string

text \<open>
  The failures a call can raise: \<open>Match_Error\<close> is what \<open>check(value, String)\<close> throws
  on a value that is not a string (here: an absent one), \<open>Type_Error\<close> is JavaScript's
  own failure when a method is called on \<open>undefined\<close>, \<open>Meteor_Error\<close> carries the message
  of a \<open>new Meteor.Error(...)\<close> thrown in the source, and \<open>Not_Defined\<close> is the failure
  of a lookup of the base collection, labelled with the collection and the string
  that did not resolve.
\<close>

datatype error =
    Match_Error
  | Type_Error
  | Meteor_Error string
  | Not_Defined string string

text \<open>\<open>check(value, String)\<close> on a value that may be absent.\<close>

definition check_String :: "string option \<Rightarrow> error + string" where
  "check_String v = (case v of None \<Rightarrow> Inl Match_Error | Some x \<Rightarrow> Inr x)"

text \<open>
  \<open>Array.prototype.map\<close> with a callback that may throw: the elements are visited
  in order and the first failure ends the call.
\<close>

fun map_throwing :: "('a \<Rightarrow> error + 'b) \<Rightarrow> 'a list \<Rightarrow> error + 'b list" where
  "map_throwing f [] = Inr []"
| "map_throwing f (x # xs) =
     (case f x of
        Inl e \<Rightarrow> Inl e
      | Inr y \<Rightarrow> (case map_throwing f xs of Inl e \<Rightarrow> Inl e | Inr ys \<Rightarrow> Inr (y # ys)))"

text \<open>\<open>_.each\<close> with a callback that may throw.\<close>

fun each :: "('a \<Rightarrow> error + unit) \<Rightarrow> 'a list \<Rightarrow> error + unit" where
  "each f [] = Inr ()"
| "each f (x # xs) = (case f x of Inl e \<Rightarrow> Inl e | Inr _ \<Rightarrow> each f xs)"

text \<open>
  \<open>_.uniq\<close>: the elements in order of first occurrence, each pushed to the result
  unless the result holds it already.
\<close>

definition uniq :: "'a list \<Rightarrow> 'a list" where
  "uniq xs = fold (\<lambda>x r. if x \<in> set r then r else r @ [x]) xs []"

text \<open>An array inside a template literal: its elements joined by commas.\<close>

fun commas :: "string list \<Rightarrow> string" where
  "commas [] = []"
| "commas [x] = x"
| "commas (x # y # ys) = x @ '','' @ commas (y # ys)"

text \<open>A destructuring default: it applies when the property is absent.\<close>

definition or_default :: "'a \<Rightarrow> 'a option \<Rightarrow> 'a" where
  "or_default d v = (case v of None \<Rightarrow> d | Some x \<Rightarrow> x)"

text \<open>The first of two attempts that yields something.\<close>

definition or_else :: "'a option \<Rightarrow> 'a option \<Rightarrow> 'a option" where
  "or_else a b = (case a of None \<Rightarrow> b | Some x \<Rightarrow> Some x)"

section \<open>The base collection\<close>

text \<open>
  A collection is the sequence of its documents in insertion order, each with the
  identifier the storage engine gave it.
\<close>

type_synonym 'r collection = "(docID \<times> 'r) list"

text \<open>
  Modelled from the spec: the class BaseCollection and the storage engine under it are
  missing from the sources. The spec gives them as \<open>find(query)\<close> with a countable
  result, \<open>findDoc(idOrName)\<close> yielding a record or a failure, \<open>assertDefined(id)\<close>
  failing if the identifier is absent, and \<open>insert(record)\<close> returning an identifier
  that is opaque, unique and assigned by the system. The identifier assigned here is
  a string longer than every stored identifier, so that no stored document has it.
\<close>

definition find_docs :: "('r \<Rightarrow> bool) \<Rightarrow> 'r collection \<Rightarrow> 'r collection" where
  "find_docs query c = filter (\<lambda>d. query (snd d)) c"

definition count :: "'r collection \<Rightarrow> nat" where
  "count cursor = length cursor"

definition new_id :: "'r collection \<Rightarrow> docID" where
  "new_id c = replicate (Suc (foldr max (map (\<lambda>d. length (fst d)) c) 0)) (CHR ''0'')"

definition insert_doc :: "'r \<Rightarrow> 'r collection \<Rightarrow> docID \<times> 'r collection" where
  "insert_doc r c = (new_id c, c @ [(new_id c, r)])"

definition assertDefined :: "string \<Rightarrow> 'r collection \<Rightarrow> docID \<Rightarrow> error + unit" where
  "assertDefined label c i =
     (if i \<in> set (map fst c) then Inr () else Inl (Not_Defined label i))"

section \<open>FlairCollection\<close>

text \<open>
  A stored tag, as the schema has it: \<open>name\<close> is a string, \<open>description\<close> is an
  optional string.
\<close>

record flair =
  name :: string
  description :: "string option"

text \<open>
  The object passed to \<open>define\<close> and returned by \<open>dumpOne\<close>: either property may
  be absent.
\<close>

record flairDef =
  def_name :: "string option"
  def_description :: "string option"

text \<open>
  Modelled from the spec: \<open>findDoc(idOrName)\<close> of the missing BaseCollection, on the
  tag collection. Its one argument is looked up as an identifier and as a name, and the
  call fails when neither finds a document. The spec does not say which of the two is
  tried first, so the order is a parameter of the model.
\<close>

datatype resolution = Id_first | Name_first

definition findDoc :: "resolution \<Rightarrow> flair collection \<Rightarrow> string \<Rightarrow> error + (docID \<times> flair)" where
  "findDoc ord c idOrName =
     (let byId = List.find (\<lambda>d. fst d = idOrName) c;
          byName = List.find (\<lambda>d. name (snd d) = idOrName) c
      in case (case ord of Id_first \<Rightarrow> or_else byId byName | Name_first \<Rightarrow> or_else byName byId) of
           None \<Rightarrow> Inl (Not_Defined ''FlairCollection'' idOrName)
         | Some d \<Rightarrow> Inr d)"

text \<open>
  \<open>define({ name, description })\<close>. The result is the thrown failure or the new
  identifier, together with the collection after the call.
\<close>

definition defineFlair :: "flairDef \<Rightarrow> flair collection \<Rightarrow> (error + docID) \<times> flair collection" where
  "defineFlair d c =
     (case check_String (def_name d) of
        Inl e \<Rightarrow> (Inl e, c)
      | Inr name' \<Rightarrow>
     (case check_String (def_description d) of
        Inl e \<Rightarrow> (Inl e, c)
      | Inr description' \<Rightarrow>
          if count (find_docs (\<lambda>r. name r = name') c) > 0
          then (Inl (Meteor_Error (name' @ '' is previously defined in another FlairCollection'')), c)
          else (case insert_doc \<lparr>name = name', description = Some description'\<rparr> c of
                  (i, c') \<Rightarrow> (Inr i, c'))))"

definition findName :: "resolution \<Rightarrow> flair collection \<Rightarrow> docID \<Rightarrow> error + string" where
  "findName ord c interestID =
     (case assertDefined ''FlairCollection'' c interestID of
        Inl e \<Rightarrow> Inl e
      | Inr _ \<Rightarrow> (case findDoc ord c interestID of Inl e \<Rightarrow> Inl e | Inr d \<Rightarrow> Inr (name (snd d))))"

text \<open>\<open>interestIDs.map(...)\<close>: on an absent argument the method call itself fails.\<close>

definition findNames :: "resolution \<Rightarrow> flair collection \<Rightarrow> docID list option \<Rightarrow> error + string list" where
  "findNames ord c interestIDs =
     (case interestIDs of
        None \<Rightarrow> Inl Type_Error
      | Some ids \<Rightarrow> map_throwing (findName ord c) ids)"

definition assertName :: "resolution \<Rightarrow> flair collection \<Rightarrow> string \<Rightarrow> error + unit" where
  "assertName ord c n = (case findDoc ord c n of Inl e \<Rightarrow> Inl e | Inr _ \<Rightarrow> Inr ())"

definition assertNames :: "resolution \<Rightarrow> flair collection \<Rightarrow> string list \<Rightarrow> error + unit" where
  "assertNames ord c names = each (assertName ord c) names"

definition findID :: "resolution \<Rightarrow> flair collection \<Rightarrow> string \<Rightarrow> error + docID" where
  "findID ord c n = (case findDoc ord c n of Inl e \<Rightarrow> Inl e | Inr d \<Rightarrow> Inr (fst d))"

text \<open>\<open>(names) ? names.map(...) : []\<close>: an absent argument is falsy, an array never is.\<close>

definition findIDs :: "resolution \<Rightarrow> flair collection \<Rightarrow> string list option \<Rightarrow> error + docID list" where
  "findIDs ord c names =
     (case names of
        None \<Rightarrow> Inr []
      | Some ns \<Rightarrow> map_throwing (findID ord c) ns)"

definition dumpOne :: "resolution \<Rightarrow> flair collection \<Rightarrow> docID \<Rightarrow> error + flairDef" where
  "dumpOne ord c docID' =
     (case findDoc ord c docID' of
        Inl e \<Rightarrow> Inl e
      | Inr doc \<Rightarrow> Inr \<lparr>def_name = Some (name (snd doc)), def_description = description (snd doc)\<rparr>)"

section \<open>ProfileCollection\<close>

text \<open>A stored profile: the object \<open>define\<close> inserts, every default applied.\<close>

record profile =
  firstName :: string
  lastName :: string
  username :: string
  bio :: string
  interests :: "string list"
  flairs :: "string list"
  picture :: string
  title :: string
  github :: string
  facebook :: string
  instagram :: string

text \<open>The object passed to \<open>define\<close>: every property may be absent.\<close>

record profileDef =
  def_firstName :: "string option"
  def_lastName :: "string option"
  def_username :: "string option"
  def_bio :: "string option"
  def_interests :: "string list option"
  def_flairs :: "string list option"
  def_picture :: "string option"
  def_title :: "string option"
  def_github :: "string option"
  def_facebook :: "string option"
  def_instagram :: "string option"

text \<open>
  The three collections a profile definition touches. Modelled from the spec: the
  InterestCollection is missing from the sources; of it the spec gives only the
  name assertion, so it is kept as the names of the interests that exist.
\<close>

record stores =
  Profiles :: "profile collection"
  Flairs :: "flair collection"
  Interests :: "string list"

text \<open>
  Modelled from the spec: \<open>Interests.assertNames(names)\<close> of the missing
  InterestCollection fails if some entry does not resolve to an existing interest.
\<close>

definition Interests_assertNames :: "string list \<Rightarrow> string list \<Rightarrow> error + unit" where
  "Interests_assertNames known names =
     each (\<lambda>n. if n \<in> set known then Inr () else Inl (Not_Defined ''Interest'' n)) names"

definition defineProfile :: "resolution \<Rightarrow> profileDef \<Rightarrow> stores \<Rightarrow> (error + docID) \<times> stores" where
  "defineProfile ord d s =
     (let firstName' = or_default '''' (def_firstName d);
          lastName' = or_default '''' (def_lastName d);
          bio' = or_default '''' (def_bio d);
          interests' = or_default [] (def_interests d);
          flairs' = or_default [] (def_flairs d);
          picture' = or_default '''' (def_picture d);
          title' = or_default '''' (def_title d);
          github' = or_default '''' (def_github d);
          facebook' = or_default '''' (def_facebook d);
          instagram' = or_default '''' (def_instagram d)
      in
      case check_String (def_username d) of
        Inl e \<Rightarrow> (Inl e, s)
      | Inr username' \<Rightarrow>
          if count (find_docs (\<lambda>p. username p = username') (Profiles s)) > 0
          then (Inl (Meteor_Error (username' @ '' is previously defined in another Profile'')), s)
          else
     (case Interests_assertNames (Interests s) interests' of
        Inl e \<Rightarrow> (Inl e, s)
      | Inr _ \<Rightarrow>
          if length interests' \<noteq> length (uniq interests')
          then (Inl (Meteor_Error (commas interests' @ '' contains duplicates'')), s)
          else
     (case assertNames ord (Flairs s) flairs' of
        Inl e \<Rightarrow> (Inl e, s)
      | Inr _ \<Rightarrow>
          if length flairs' \<noteq> length (uniq flairs')
          then (Inl (Meteor_Error (commas flairs' @ '' contains duplicates'')), s)
          else
     (case insert_doc
             \<lparr>firstName = firstName', lastName = lastName', username = username', bio = bio',
              interests = interests', flairs = flairs', picture = picture', title = title',
              github = github', facebook = facebook', instagram = instagram'\<rparr>
             (Profiles s) of
        (i, c') \<Rightarrow> (Inr i, s\<lparr>Profiles := c'\<rparr>)))))"

section \<open>Reachable states of the tag collection\<close>

text \<open>
  \<open>define\<close> is the only operation that changes the collection: the states that can
  arise are those a sequence of \<open>define\<close> calls produces from the empty collection.
\<close>

inductive reachable :: "flair collection \<Rightarrow> bool" where
  initial: "reachable []"
| step: "reachable c \<Longrightarrow> reachable (snd (defineFlair d c))"

section \<open>Vocabulary of the statements\<close>

text \<open>The identifiers and the names of the tags a collection holds.\<close>

abbreviation stored_ids :: "'r collection \<Rightarrow> docID set" where
  "stored_ids c \<equiv> set (map fst c)"

abbreviation stored_names :: "flair collection \<Rightarrow> string set" where
  "stored_names c \<equiv> set (map (\<lambda>d. name (snd d)) c)"

section \<open>Auxiliary facts\<close>

lemma le_foldr_max: "x \<in> set xs \<Longrightarrow> x \<le> foldr max xs (0::nat)"
  by (induction xs) auto

lemma new_id_unused: "new_id c \<notin> stored_ids c"
proof
  assume "new_id c \<in> stored_ids c"
  then obtain d where d: "d \<in> set c" and eq: "fst d = new_id c" by auto
  from d have "length (fst d) \<in> set (map (\<lambda>d. length (fst d)) c)" by simp
  then have "length (fst d) \<le> foldr max (map (\<lambda>d. length (fst d)) c) 0"
    by (rule le_foldr_max)
  with eq show False by (simp add: new_id_def)
qed


lemma count_find_docs_pos:
  "(count (find_docs (\<lambda>r. f r = v) c) > 0) = (v \<in> set (map (\<lambda>d. f (snd d)) c))"
  by (auto simp: count_def find_docs_def filter_empty_conv)

lemma uniq_step_length_le:
  "length (fold (\<lambda>x r. if x \<in> set r then r else r @ [x]) xs r) \<le> length r + length xs"
proof (induction xs arbitrary: r)
  case Nil
  show ?case by simp
next
  case (Cons x xs)
  show ?case
  proof (cases "x \<in> set r")
    case True
    with Cons [of r] show ?thesis by simp
  next
    case False
    with Cons [of "r @ [x]"] show ?thesis by simp
  qed
qed

lemma uniq_step_distinct:
  "distinct xs \<Longrightarrow> set xs \<inter> set r = {}
     \<Longrightarrow> fold (\<lambda>x r. if x \<in> set r then r else r @ [x]) xs r = r @ xs"
  by (induction xs arbitrary: r) auto

lemma uniq_step_full_length:
  "length (fold (\<lambda>x r. if x \<in> set r then r else r @ [x]) xs r) = length r + length xs
     \<Longrightarrow> distinct xs \<and> set xs \<inter> set r = {}"
proof (induction xs arbitrary: r)
  case Nil
  show ?case by simp
next
  case (Cons x xs)
  show ?case
  proof (cases "x \<in> set r")
    case True
    with Cons.prems uniq_step_length_le [of xs r] show ?thesis by simp
  next
    case False
    with Cons.prems have "length (fold (\<lambda>x r. if x \<in> set r then r else r @ [x]) xs (r @ [x]))
        = length (r @ [x]) + length xs" by simp
    then have "distinct xs \<and> set xs \<inter> set (r @ [x]) = {}" by (rule Cons.IH)
    with False show ?thesis by auto
  qed
qed

lemma uniq_distinct: "distinct xs \<Longrightarrow> uniq xs = xs"
  using uniq_step_distinct [of xs "[]"] by (simp add: uniq_def)

lemma uniq_length: "(length xs \<noteq> length (uniq xs)) = (\<not> distinct xs)"
  using uniq_step_full_length [of xs "[]"] uniq_distinct [of xs] by (auto simp: uniq_def)

lemma find_id_None: "(List.find (\<lambda>d. fst d = k) c = None) = (k \<notin> stored_ids c)"
  by (induction c) auto

lemma find_name_None:
  "(List.find (\<lambda>d. name (snd d) = k) c = None) = (k \<notin> stored_names c)"
  by (induction c) auto

lemma find_Some_holds: "List.find P xs = Some x \<Longrightarrow> x \<in> set xs \<and> P x"
  by (induction xs) (auto split: if_splits)

lemma find_not_None: "(List.find P xs \<noteq> None) = (\<exists>x \<in> set xs. P x)"
  by (induction xs) auto

lemma find_outside_None: "set xs \<subseteq> A \<Longrightarrow> List.find (\<lambda>n. n \<notin> A) xs = None"
  by (auto simp: find_None_iff)

lemma find_outside_Some:
  "\<not> set xs \<subseteq> A \<Longrightarrow> \<exists>n. List.find (\<lambda>n. n \<notin> A) xs = Some n \<and> n \<in> set xs \<and> n \<notin> A"
proof -
  assume "\<not> set xs \<subseteq> A"
  then have "\<exists>n \<in> set xs. n \<notin> A" by blast
  then have "List.find (\<lambda>n. n \<notin> A) xs \<noteq> None"
    by (simp only: find_not_None)
  then obtain n where n: "List.find (\<lambda>n. n \<notin> A) xs = Some n" by auto
  from find_Some_holds [OF n] n show ?thesis by simp
qed



lemma findDoc_unresolved:
  "k \<notin> stored_ids c \<Longrightarrow> k \<notin> stored_names c \<Longrightarrow>
     findDoc ord c k = Inl (Not_Defined ''FlairCollection'' k)"
  using find_id_None [of k c] find_name_None [of k c]
  by (cases ord) (simp_all add: findDoc_def or_else_def)




lemma findDoc_resolved:
  "k \<in> stored_ids c \<or> k \<in> stored_names c \<Longrightarrow> \<exists>d. findDoc ord c k = Inr d"
  using find_id_None [of k c] find_name_None [of k c]
  by (cases ord) (auto simp: findDoc_def or_else_def Let_def split: option.splits)

lemma defineFlair_Some:
  "defineFlair \<lparr>def_name = Some n, def_description = Some t\<rparr> c =
     (if n \<in> stored_names c
      then (Inl (Meteor_Error (n @ '' is previously defined in another FlairCollection'')), c)
      else (Inr (new_id c), c @ [(new_id c, \<lparr>name = n, description = Some t\<rparr>)]))"
  by (auto simp: defineFlair_def check_String_def count_find_docs_pos insert_doc_def)

lemma defineFlair_None:
  "def_name d = None \<or> def_description d = None \<Longrightarrow> defineFlair d c = (Inl Match_Error, c)"
  by (auto simp: defineFlair_def check_String_def split: option.splits)

lemma defineFlair_outcome:
  "defineFlair d c = (Inl Match_Error, c)
   \<or> (\<exists>n. n \<in> stored_names c \<and> defineFlair d c =
         (Inl (Meteor_Error (n @ '' is previously defined in another FlairCollection'')), c))
   \<or> (\<exists>n t. n \<notin> stored_names c \<and> defineFlair d c =
         (Inr (new_id c), c @ [(new_id c, \<lparr>name = n, description = Some t\<rparr>)]))"
proof (cases "def_name d")
  case None
  then show ?thesis by (simp add: defineFlair_None)
next
  case n: (Some n)
  show ?thesis
  proof (cases "def_description d")
    case None
    then show ?thesis by (simp add: defineFlair_None)
  next
    case (Some t)
    with n have "d = \<lparr>def_name = Some n, def_description = Some t\<rparr>" by (cases d) simp
    then show ?thesis by (auto simp: defineFlair_Some)
  qed
qed

lemma each_find:
  "each (\<lambda>n. if P n then Inr () else Inl (E n)) ns =
     (case List.find (\<lambda>n. \<not> P n) ns of None \<Rightarrow> Inr () | Some n \<Rightarrow> Inl (E n))"
  by (induction ns) auto

lemma assertName_iff:
  "assertName ord c n =
     (if n \<in> stored_ids c \<union> stored_names c then Inr ()
      else Inl (Not_Defined ''FlairCollection'' n))"
proof (cases "n \<in> stored_ids c \<or> n \<in> stored_names c")
  case True
  then obtain d where "findDoc ord c n = Inr d" using findDoc_resolved by blast
  with True show ?thesis by (auto simp: assertName_def)
next
  case False
  then show ?thesis by (simp add: assertName_def findDoc_unresolved)
qed

lemma assertNames_find:
  "assertNames ord c ns =
     (case List.find (\<lambda>n. n \<notin> stored_ids c \<union> stored_names c) ns of
        None \<Rightarrow> Inr ()
      | Some n \<Rightarrow> Inl (Not_Defined ''FlairCollection'' n))"
proof -
  have "assertName ord c = (\<lambda>n. if n \<in> stored_ids c \<union> stored_names c then Inr ()
      else Inl (Not_Defined ''FlairCollection'' n))"
    by (rule ext) (rule assertName_iff)
  then show ?thesis
    unfolding assertNames_def by (simp only: each_find)
qed

lemma Interests_assertNames_find:
  "Interests_assertNames known ns =
     (case List.find (\<lambda>n. n \<notin> set known) ns of
        None \<Rightarrow> Inr ()
      | Some n \<Rightarrow> Inl (Not_Defined ''Interest'' n))"
  unfolding Interests_assertNames_def by (simp only: each_find)

lemma defineProfile_cases:
  "defineProfile ord d s =
     (let interests' = or_default [] (def_interests d); flairs' = or_default [] (def_flairs d) in
      case def_username d of
        None \<Rightarrow> (Inl Match_Error, s)
      | Some u \<Rightarrow>
          if u \<in> set (map (\<lambda>p. username (snd p)) (Profiles s))
          then (Inl (Meteor_Error (u @ '' is previously defined in another Profile'')), s)
          else
     (case List.find (\<lambda>n. n \<notin> set (Interests s)) interests' of
        Some n \<Rightarrow> (Inl (Not_Defined ''Interest'' n), s)
      | None \<Rightarrow>
          if \<not> distinct interests'
          then (Inl (Meteor_Error (commas interests' @ '' contains duplicates'')), s)
          else
     (case List.find (\<lambda>n. n \<notin> stored_ids (Flairs s) \<union> stored_names (Flairs s)) flairs' of
        Some n \<Rightarrow> (Inl (Not_Defined ''FlairCollection'' n), s)
      | None \<Rightarrow>
          if \<not> distinct flairs'
          then (Inl (Meteor_Error (commas flairs' @ '' contains duplicates'')), s)
          else
            (Inr (new_id (Profiles s)),
             s\<lparr>Profiles := Profiles s @
                [(new_id (Profiles s),
                  \<lparr>firstName = or_default '''' (def_firstName d),
                   lastName = or_default '''' (def_lastName d),
                   username = u,
                   bio = or_default '''' (def_bio d),
                   interests = interests',
                   flairs = flairs',
                   picture = or_default '''' (def_picture d),
                   title = or_default '''' (def_title d),
                   github = or_default '''' (def_github d),
                   facebook = or_default '''' (def_facebook d),
                   instagram = or_default '''' (def_instagram d)\<rparr>)]\<rparr>))))"
  by (simp add: defineProfile_def Let_def check_String_def count_find_docs_pos uniq_length
        Interests_assertNames_find assertNames_find insert_doc_def
      split: option.splits)

lemma or_default_Some: "or_default a (Some (or_default a v)) = or_default a v"
  by (simp add: or_default_def)








section \<open>Results\<close>




text \<open>
  C2. \<open>define\<close> of a profile with a username validates in this order, each failure
  leaving the three collections as they were: the username is not registered yet;
  every entry of \<open>interests\<close> is an existing interest; \<open>interests\<close> has no duplicates;
  every entry of \<open>flairs\<close> resolves in the tag collection, that is, \<open>findDoc\<close> finds a
  stored tag with this name or this identifier; \<open>flairs\<close> has no duplicates. Only when
  all five pass is the record inserted. In particular, a fresh username with a valid
  interest repeated fails with the duplicates error of \<open>interests\<close>.
\<close>

theorem defineProfile_validation_order:
  assumes "def_username d = Some u"
    and "ins = or_default [] (def_interests d)"
    and "fls = or_default [] (def_flairs d)"
  shows
    "(u \<in> set (map (\<lambda>p. username (snd p)) (Profiles s)) \<longrightarrow>
        defineProfile ord d s =
          (Inl (Meteor_Error (u @ '' is previously defined in another Profile'')), s))
   \<and> (u \<notin> set (map (\<lambda>p. username (snd p)) (Profiles s)) \<longrightarrow>
       (\<not> set ins \<subseteq> set (Interests s) \<longrightarrow>
          (\<exists>n \<in> set ins. n \<notin> set (Interests s)
             \<and> defineProfile ord d s = (Inl (Not_Defined ''Interest'' n), s)))
     \<and> (set ins \<subseteq> set (Interests s) \<longrightarrow>
       (\<not> distinct ins \<longrightarrow>
          defineProfile ord d s = (Inl (Meteor_Error (commas ins @ '' contains duplicates'')), s))
     \<and> (distinct ins \<longrightarrow>
       (\<not> set fls \<subseteq> stored_ids (Flairs s) \<union> stored_names (Flairs s) \<longrightarrow>
          (\<exists>n \<in> set fls. n \<notin> stored_ids (Flairs s) \<union> stored_names (Flairs s)
             \<and> defineProfile ord d s = (Inl (Not_Defined ''FlairCollection'' n), s)))
     \<and> (set fls \<subseteq> stored_ids (Flairs s) \<union> stored_names (Flairs s) \<longrightarrow>
       (\<not> distinct fls \<longrightarrow>
          defineProfile ord d s = (Inl (Meteor_Error (commas fls @ '' contains duplicates'')), s))
     \<and> (distinct fls \<longrightarrow>
          (\<exists>i p. defineProfile ord d s = (Inr i, s\<lparr>Profiles := Profiles s @ [(i, p)]\<rparr>)
             \<and> username p = u \<and> interests p = ins \<and> flairs p = fls))))))"
proof -
  let ?known = "set (Interests s)"
  let ?tags = "stored_ids (Flairs s) \<union> stored_names (Flairs s)"
  let ?p = "\<lparr>firstName = or_default '''' (def_firstName d),
             lastName = or_default '''' (def_lastName d),
             username = u,
             bio = or_default '''' (def_bio d),
             interests = ins,
             flairs = fls,
             picture = or_default '''' (def_picture d),
             title = or_default '''' (def_title d),
             github = or_default '''' (def_github d),
             facebook = or_default '''' (def_facebook d),
             instagram = or_default '''' (def_instagram d)\<rparr>"
  have i_none: "set ins \<subseteq> ?known \<Longrightarrow> List.find (\<lambda>n. n \<notin> ?known) ins = None"
    by (rule find_outside_None)
  have i_some: "\<not> set ins \<subseteq> ?known \<Longrightarrow>
      \<exists>n. List.find (\<lambda>n. n \<notin> ?known) ins = Some n \<and> n \<in> set ins \<and> n \<notin> ?known"
    by (rule find_outside_Some)
  have f_none: "set fls \<subseteq> ?tags \<Longrightarrow> List.find (\<lambda>n. n \<notin> ?tags) fls = None"
    by (rule find_outside_None)
  have f_some: "\<not> set fls \<subseteq> ?tags \<Longrightarrow>
      \<exists>n. List.find (\<lambda>n. n \<notin> ?tags) fls = Some n \<and> n \<in> set fls \<and> n \<notin> ?tags"
    by (rule find_outside_Some)
  show ?thesis
  proof (intro conjI impI)
    assume "u \<in> set (map (\<lambda>p. username (snd p)) (Profiles s))"
    then show "defineProfile ord d s =
          (Inl (Meteor_Error (u @ '' is previously defined in another Profile'')), s)"
      using assms(1) by (simp add: defineProfile_cases Let_def)
  next
    assume "u \<notin> set (map (\<lambda>p. username (snd p)) (Profiles s))" "\<not> set ins \<subseteq> ?known"
    then show "\<exists>n \<in> set ins. n \<notin> ?known
        \<and> defineProfile ord d s = (Inl (Not_Defined ''Interest'' n), s)"
      using assms i_some by (auto simp: defineProfile_cases Let_def)
  next
    assume "u \<notin> set (map (\<lambda>p. username (snd p)) (Profiles s))" "set ins \<subseteq> ?known"
      "\<not> distinct ins"
    then show "defineProfile ord d s =
        (Inl (Meteor_Error (commas ins @ '' contains duplicates'')), s)"
      using assms i_none by (simp add: defineProfile_cases Let_def)
  next
    assume a: "u \<notin> set (map (\<lambda>p. username (snd p)) (Profiles s))" "set ins \<subseteq> ?known"
      "distinct ins" and b: "\<not> set fls \<subseteq> ?tags"
    from f_some [OF b] obtain n where n: "List.find (\<lambda>n. n \<notin> ?tags) fls = Some n"
      "n \<in> set fls" "n \<notin> ?tags" by blast
    have "defineProfile ord d s = (Inl (Not_Defined ''FlairCollection'' n), s)"
      using a assms i_none n(1) by (simp add: defineProfile_cases Let_def)
    with n(2,3) show "\<exists>n \<in> set fls. n \<notin> ?tags
        \<and> defineProfile ord d s = (Inl (Not_Defined ''FlairCollection'' n), s)"
      by blast
  next
    assume a: "u \<notin> set (map (\<lambda>p. username (snd p)) (Profiles s))" "set ins \<subseteq> ?known"
      "distinct ins" "\<not> distinct fls" and b: "set fls \<subseteq> ?tags"
    show "defineProfile ord d s =
        (Inl (Meteor_Error (commas fls @ '' contains duplicates'')), s)"
      using a assms i_none f_none [OF b] by (simp add: defineProfile_cases Let_def)
  next
    assume a: "u \<notin> set (map (\<lambda>p. username (snd p)) (Profiles s))" "set ins \<subseteq> ?known"
      "distinct ins" "distinct fls" and b: "set fls \<subseteq> ?tags"
    have ok: "defineProfile ord d s = (Inr (new_id (Profiles s)),
        s\<lparr>Profiles := Profiles s @ [(new_id (Profiles s), ?p)]\<rparr>)"
      using a assms i_none f_none [OF b] by (simp add: defineProfile_cases Let_def)
    have "username ?p = u \<and> interests ?p = ins \<and> flairs ?p = fls"
      by simp
    with ok show "\<exists>i p. defineProfile ord d s = (Inr i, s\<lparr>Profiles := Profiles s @ [(i, p)]\<rparr>)
        \<and> username p = u \<and> interests p = ins \<and> flairs p = fls"
      by blast
  qed
qed

theorem defineProfile_validation_order_witness:
  "defineProfile Id_first
     \<lparr>def_firstName = None, def_lastName = None, def_username = Some ''jdoe'', def_bio = None,
      def_interests = Some [''AI'', ''AI''], def_flairs = None, def_picture = None,
      def_title = None, def_github = None, def_facebook = None, def_instagram = None\<rparr>
     \<lparr>Profiles = [], Flairs = [], Interests = [''AI'']\<rparr>
   = (Inl (Meteor_Error ''AI,AI contains duplicates''),
      \<lparr>Profiles = [], Flairs = [], Interests = [''AI'']\<rparr>)
   \<and> (\<exists>i p. defineProfile Name_first
     \<lparr>def_firstName = None, def_lastName = None, def_username = Some ''jdoe'', def_bio = None,
      def_interests = None, def_flairs = Some [''f1'', ''Fun''], def_picture = None,
      def_title = None, def_github = None, def_facebook = None, def_instagram = None\<rparr>
     \<lparr>Profiles = [], Flairs = [(''f1'', \<lparr>name = ''Fun'', description = None\<rparr>)],
      Interests = []\<rparr>
   = (Inr i, \<lparr>Profiles = [(i, p)],
        Flairs = [(''f1'', \<lparr>name = ''Fun'', description = None\<rparr>)], Interests = []\<rparr>)
     \<and> flairs p = [''f1'', ''Fun''])"
  using defineProfile_validation_order
    [of "\<lparr>def_firstName = None, def_lastName = None, def_username = Some ''jdoe'', def_bio = None,
      def_interests = Some [''AI'', ''AI''], def_flairs = None, def_picture = None,
      def_title = None, def_github = None, def_facebook = None, def_instagram = None\<rparr>"
     "''jdoe''" "[''AI'', ''AI'']" "[]" "\<lparr>Profiles = [], Flairs = [], Interests = [''AI'']\<rparr>"
     Id_first]
    defineProfile_validation_order
    [of "\<lparr>def_firstName = None, def_lastName = None, def_username = Some ''jdoe'', def_bio = None,
      def_interests = None, def_flairs = Some [''f1'', ''Fun''], def_picture = None,
      def_title = None, def_github = None, def_facebook = None, def_instagram = None\<rparr>"
     "''jdoe''" "[]" "[''f1'', ''Fun'']"
     "\<lparr>Profiles = [], Flairs = [(''f1'', \<lparr>name = ''Fun'', description = None\<rparr>)],
      Interests = []\<rparr>"
     Name_first]
  by (auto simp: or_default_def)

text \<open>
  C3. The documentation of \<open>define\<close> and the schema declare the description optional,
  yet \<open>check(description, String)\<close> rejects an absent one: on the empty collection the
  call \<open>define({ name: 'AI' })\<close> with a fresh name fails and inserts nothing.
\<close>

theorem defineFlair_description_omitted:
  "defineFlair \<lparr>def_name = Some ''AI'', def_description = None\<rparr> [] = (Inl Match_Error, [])"
  by (simp add: defineFlair_def check_String_def)

text \<open>
  C4, as stated, fails for \<open>username\<close>: the parameter list gives it no default. On empty
  collections a call without a username fails the type check, whereas the same call
  with the empty string as username succeeds.
\<close>

theorem defineProfile_username_counterexample:
  "defineProfile Id_first
     \<lparr>def_firstName = None, def_lastName = None, def_username = None, def_bio = None,
      def_interests = None, def_flairs = None, def_picture = None,
      def_title = None, def_github = None, def_facebook = None, def_instagram = None\<rparr>
     \<lparr>Profiles = [], Flairs = [], Interests = []\<rparr>
   = (Inl Match_Error, \<lparr>Profiles = [], Flairs = [], Interests = []\<rparr>)
   \<and> fst (defineProfile Id_first
     \<lparr>def_firstName = None, def_lastName = None, def_username = Some '''', def_bio = None,
      def_interests = None, def_flairs = None, def_picture = None,
      def_title = None, def_github = None, def_facebook = None, def_instagram = None\<rparr>
     \<lparr>Profiles = [], Flairs = [], Interests = []\<rparr>)
   = Inr ''0''
   \<and> defineProfile Name_first
     \<lparr>def_firstName = None, def_lastName = None, def_username = None, def_bio = None,
      def_interests = None, def_flairs = None, def_picture = None,
      def_title = None, def_github = None, def_facebook = None, def_instagram = None\<rparr>
     \<lparr>Profiles = [], Flairs = [], Interests = []\<rparr>
   = (Inl Match_Error, \<lparr>Profiles = [], Flairs = [], Interests = []\<rparr>)
   \<and> fst (defineProfile Name_first
     \<lparr>def_firstName = None, def_lastName = None, def_username = Some '''', def_bio = None,
      def_interests = None, def_flairs = None, def_picture = None,
      def_title = None, def_github = None, def_facebook = None, def_instagram = None\<rparr>
     \<lparr>Profiles = [], Flairs = [], Interests = []\<rparr>)
   = Inr ''0''"
  by (simp add: defineProfile_cases Let_def or_default_def new_id_def)

text \<open>
  C4, amended. In \<open>define\<close> of a profile each of \<open>firstName\<close>, \<open>lastName\<close>, \<open>bio\<close>,
  \<open>picture\<close> and \<open>title\<close> defaults to the empty string when absent, and \<open>interests\<close>
  and \<open>flairs\<close> default to empty sequences: a call behaves as the call with these
  properties filled in. \<open>username\<close> has no default: a call without it fails the type
  check and changes nothing. A call that supplies only a username no stored profile
  has succeeds and stores the record with every default applied.
\<close>

theorem defineProfile_defaults:
  "defineProfile ord d s =
     defineProfile ord
       (d\<lparr>def_firstName := Some (or_default '''' (def_firstName d)),
          def_lastName := Some (or_default '''' (def_lastName d)),
          def_bio := Some (or_default '''' (def_bio d)),
          def_picture := Some (or_default '''' (def_picture d)),
          def_title := Some (or_default '''' (def_title d)),
          def_interests := Some (or_default [] (def_interests d)),
          def_flairs := Some (or_default [] (def_flairs d))\<rparr>) s
   \<and> (def_username d = None \<longrightarrow> defineProfile ord d s = (Inl Match_Error, s))
   \<and> (u \<notin> set (map (\<lambda>p. username (snd p)) (Profiles s)) \<longrightarrow>
        (\<exists>i. i \<notin> stored_ids (Profiles s) \<and>
          defineProfile ord
            \<lparr>def_firstName = None, def_lastName = None, def_username = Some u, def_bio = None,
             def_interests = None, def_flairs = None, def_picture = None,
             def_title = None, def_github = None, def_facebook = None, def_instagram = None\<rparr> s
          = (Inr i,
             s\<lparr>Profiles := Profiles s @
               [(i, \<lparr>firstName = '''', lastName = '''', username = u, bio = '''',
                     interests = [], flairs = [], picture = '''', title = '''',
                     github = '''', facebook = '''', instagram = ''''\<rparr>)]\<rparr>)))"
proof (intro conjI impI)
  show "defineProfile ord d s =
     defineProfile ord
       (d\<lparr>def_firstName := Some (or_default '''' (def_firstName d)),
          def_lastName := Some (or_default '''' (def_lastName d)),
          def_bio := Some (or_default '''' (def_bio d)),
          def_picture := Some (or_default '''' (def_picture d)),
          def_title := Some (or_default '''' (def_title d)),
          def_interests := Some (or_default [] (def_interests d)),
          def_flairs := Some (or_default [] (def_flairs d))\<rparr>) s"
    by (simp add: defineProfile_def or_default_Some)
next
  assume "def_username d = None"
  then show "defineProfile ord d s = (Inl Match_Error, s)"
    by (simp add: defineProfile_cases Let_def)
next
  assume "u \<notin> set (map (\<lambda>p. username (snd p)) (Profiles s))"
  then have "defineProfile ord
            \<lparr>def_firstName = None, def_lastName = None, def_username = Some u, def_bio = None,
             def_interests = None, def_flairs = None, def_picture = None,
             def_title = None, def_github = None, def_facebook = None, def_instagram = None\<rparr> s
          = (Inr (new_id (Profiles s)),
             s\<lparr>Profiles := Profiles s @
               [(new_id (Profiles s), \<lparr>firstName = '''', lastName = '''', username = u, bio = '''',
                     interests = [], flairs = [], picture = '''', title = '''',
                     github = '''', facebook = '''', instagram = ''''\<rparr>)]\<rparr>)"
    by (simp add: defineProfile_cases Let_def or_default_def)
  moreover have "new_id (Profiles s) \<notin> stored_ids (Profiles s)"
    by (rule new_id_unused)
  ultimately show "\<exists>i. i \<notin> stored_ids (Profiles s) \<and>
          defineProfile ord
            \<lparr>def_firstName = None, def_lastName = None, def_username = Some u, def_bio = None,
             def_interests = None, def_flairs = None, def_picture = None,
             def_title = None, def_github = None, def_facebook = None, def_instagram = None\<rparr> s
          = (Inr i,
             s\<lparr>Profiles := Profiles s @
               [(i, \<lparr>firstName = '''', lastName = '''', username = u, bio = '''',
                     interests = [], flairs = [], picture = '''', title = '''',
                     github = '''', facebook = '''', instagram = ''''\<rparr>)]\<rparr>)"
    by blast
qed

theorem defineProfile_defaults_witness:
  "defineProfile Id_first
     \<lparr>def_firstName = None, def_lastName = None, def_username = None, def_bio = None,
      def_interests = None, def_flairs = None, def_picture = None,
      def_title = None, def_github = None, def_facebook = None, def_instagram = None\<rparr>
     \<lparr>Profiles = [], Flairs = [], Interests = []\<rparr>
   = (Inl Match_Error, \<lparr>Profiles = [], Flairs = [], Interests = []\<rparr>)
   \<and> (\<exists>i. defineProfile Id_first
            \<lparr>def_firstName = None, def_lastName = None, def_username = Some ''jdoe'', def_bio = None,
             def_interests = None, def_flairs = None, def_picture = None,
             def_title = None, def_github = None, def_facebook = None, def_instagram = None\<rparr>
            \<lparr>Profiles = [], Flairs = [], Interests = []\<rparr>
          = (Inr i,
             \<lparr>Profiles =
               [(i, \<lparr>firstName = '''', lastName = '''', username = ''jdoe'', bio = '''',
                     interests = [], flairs = [], picture = '''', title = '''',
                     github = '''', facebook = '''', instagram = ''''\<rparr>)],
              Flairs = [], Interests = []\<rparr>))"
  using defineProfile_defaults
    [of Id_first
     "\<lparr>def_firstName = None, def_lastName = None, def_username = None, def_bio = None,
      def_interests = None, def_flairs = None, def_picture = None,
      def_title = None, def_github = None, def_facebook = None, def_instagram = None\<rparr>"
     "\<lparr>Profiles = [], Flairs = [], Interests = []\<rparr>" "''jdoe''"]
  by auto

text \<open>
  C5. For a stored tag without a description the round trip breaks: \<open>dumpOne\<close> returns
  an object with the description absent, and \<open>define\<close> rejects that object, under a fresh
  name, at \<open>check(description, String)\<close>. No tag is created.
\<close>

theorem dumpOne_define_no_description:
  "dumpOne ord [(''1'', \<lparr>name = ''AI'', description = None\<rparr>)] ''1''
     = Inr \<lparr>def_name = Some ''AI'', def_description = None\<rparr>
   \<and> defineFlair (\<lparr>def_name = Some ''AI'', def_description = None\<rparr>\<lparr>def_name := Some ''ML''\<rparr>)
       [(''1'', \<lparr>name = ''AI'', description = None\<rparr>)]
     = (Inl Match_Error, [(''1'', \<lparr>name = ''AI'', description = None\<rparr>)])"
  by (cases ord)
    (simp_all add: dumpOne_def findDoc_def or_else_def defineFlair_def check_String_def)




text \<open>
  C7. A call of \<open>define\<close> that fails, on the tag collection or on the profile collection,
  leaves every collection as it was before the call.
\<close>

theorem define_failure_leaves_state:
  "(defineFlair d c = (Inl e, c') \<longrightarrow> c' = c)
   \<and> (defineProfile ord p s = (Inl e', s') \<longrightarrow> s' = s)"
proof (intro conjI impI)
  assume "defineFlair d c = (Inl e, c')"
  with defineFlair_outcome [of d c] show "c' = c" by auto
next
  assume "defineProfile ord p s = (Inl e', s')"
  then show "s' = s"
    by (auto simp: defineProfile_cases Let_def split: option.splits if_splits)
qed

theorem define_failure_leaves_state_witness:
  "defineFlair \<lparr>def_name = Some ''AI'', def_description = Some ''again''\<rparr>
       [(''1'', \<lparr>name = ''AI'', description = Some ''first''\<rparr>)]
     = (Inl (Meteor_Error ''AI is previously defined in another FlairCollection''),
        [(''1'', \<lparr>name = ''AI'', description = Some ''first''\<rparr>)])
   \<and> defineProfile Id_first
       \<lparr>def_firstName = None, def_lastName = None, def_username = Some ''jdoe'', def_bio = None,
        def_interests = None, def_flairs = Some [''Unknown''], def_picture = None,
        def_title = None, def_github = None, def_facebook = None, def_instagram = None\<rparr>
       \<lparr>Profiles = [], Flairs = [(''1'', \<lparr>name = ''AI'', description = Some ''first''\<rparr>)],
        Interests = []\<rparr>
     = (Inl (Not_Defined ''FlairCollection'' ''Unknown''),
       \<lparr>Profiles = [], Flairs = [(''1'', \<lparr>name = ''AI'', description = Some ''first''\<rparr>)],
        Interests = []\<rparr>)"
  using define_failure_leaves_state
    [of "\<lparr>def_name = Some ''AI'', def_description = Some ''again''\<rparr>"
        "[(''1'', \<lparr>name = ''AI'', description = Some ''first''\<rparr>)]"
        "Meteor_Error ''AI is previously defined in another FlairCollection''"
        "snd (defineFlair \<lparr>def_name = Some ''AI'', def_description = Some ''again''\<rparr>
               [(''1'', \<lparr>name = ''AI'', description = Some ''first''\<rparr>)])"
        Id_first
        "\<lparr>def_firstName = None, def_lastName = None, def_username = Some ''jdoe'', def_bio = None,
        def_interests = None, def_flairs = Some [''Unknown''], def_picture = None,
        def_title = None, def_github = None, def_facebook = None, def_instagram = None\<rparr>"
        "\<lparr>Profiles = [], Flairs = [(''1'', \<lparr>name = ''AI'', description = Some ''first''\<rparr>)],
        Interests = []\<rparr>"
        "Not_Defined ''FlairCollection'' ''Unknown''"
        "snd (defineProfile Id_first
       \<lparr>def_firstName = None, def_lastName = None, def_username = Some ''jdoe'', def_bio = None,
        def_interests = None, def_flairs = Some [''Unknown''], def_picture = None,
        def_title = None, def_github = None, def_facebook = None, def_instagram = None\<rparr>
       \<lparr>Profiles = [], Flairs = [(''1'', \<lparr>name = ''AI'', description = Some ''first''\<rparr>)],
        Interests = []\<rparr>)"]
  by (simp add: defineFlair_Some defineProfile_cases Let_def or_default_def)

text \<open>
  C8. In every state reachable from the empty tag collection by calls of \<open>define\<close>, no
  two stored tags have the same name.
\<close>

theorem reachable_names_distinct:
  "reachable c \<Longrightarrow> distinct (map (\<lambda>d. name (snd d)) c)"
proof (induction rule: reachable.induct)
  case initial
  show ?case by simp
next
  case (step c d)
  from defineFlair_outcome [of d c] step.IH show ?case by auto
qed

theorem reachable_names_distinct_witness:
  "reachable [(''0'', \<lparr>name = ''AI'', description = Some ''first''\<rparr>),
              (''00'', \<lparr>name = ''ML'', description = Some ''second''\<rparr>)]
   \<and> distinct (map (\<lambda>d. name (snd d))
        [(''0'', \<lparr>name = ''AI'', description = Some ''first''\<rparr>),
         (''00'', \<lparr>name = ''ML'', description = Some ''second''\<rparr>)])"
proof -
  have one: "reachable [(''0'', \<lparr>name = ''AI'', description = Some ''first''\<rparr>)]"
    using reachable.step [OF reachable.initial,
        of "\<lparr>def_name = Some ''AI'', def_description = Some ''first''\<rparr>"]
    by (simp add: defineFlair_Some new_id_def)
  have again: "reachable [(''0'', \<lparr>name = ''AI'', description = Some ''first''\<rparr>)]"
    using reachable.step [OF one,
        of "\<lparr>def_name = Some ''AI'', def_description = Some ''again''\<rparr>"]
    by (simp add: defineFlair_Some)
  have two: "reachable [(''0'', \<lparr>name = ''AI'', description = Some ''first''\<rparr>),
              (''00'', \<lparr>name = ''ML'', description = Some ''second''\<rparr>)]"
    using reachable.step [OF again,
        of "\<lparr>def_name = Some ''ML'', def_description = Some ''second''\<rparr>"]
    by (simp add: defineFlair_Some new_id_def)
  from two reachable_names_distinct [OF two] show ?thesis by simp
qed

text \<open>
  C9. \<open>findNames\<close> of an absent argument fails, where \<open>findIDs\<close> of an absent argument
  returns the empty list; \<open>findNames\<close> of the empty list is the empty list.
\<close>

theorem findNames_needs_list:
  "findNames ord c None = Inl Type_Error
   \<and> findNames ord c (Some []) = Inr []
   \<and> findIDs ord c None = Inr []"
  by (simp add: findNames_def findIDs_def)




text \<open>
  The object \<open>dumpOne\<close> returns for a tag that has a description, given a name no stored
  tag has, is accepted by \<open>define\<close>, and the new tag has the same description.
\<close>

theorem dumpOne_define_described:
  assumes "dumpOne ord c i = Inr dump"
    and "def_description dump = Some t"
    and "n \<notin> stored_names c"
  shows "defineFlair (dump\<lparr>def_name := Some n\<rparr>) c =
           (Inr (new_id c), c @ [(new_id c, \<lparr>name = n, description = Some t\<rparr>)])"
proof -
  have "dump\<lparr>def_name := Some n\<rparr> = \<lparr>def_name = Some n, def_description = Some t\<rparr>"
    using assms(2) by (cases dump) simp
  then show ?thesis
    using assms(3) by (simp add: defineFlair_Some)
qed

theorem dumpOne_define_described_witness:
  "dumpOne Id_first [(''1'', \<lparr>name = ''AI'', description = Some ''machines''\<rparr>)] ''1''
     = Inr \<lparr>def_name = Some ''AI'', def_description = Some ''machines''\<rparr>
   \<and> defineFlair (\<lparr>def_name = Some ''AI'', def_description = Some ''machines''\<rparr>
                    \<lparr>def_name := Some ''ML''\<rparr>)
       [(''1'', \<lparr>name = ''AI'', description = Some ''machines''\<rparr>)]
     = (Inr ''00'',
        [(''1'', \<lparr>name = ''AI'', description = Some ''machines''\<rparr>),
         (''00'', \<lparr>name = ''ML'', description = Some ''machines''\<rparr>)])"
  using dumpOne_define_described
    [of Id_first "[(''1'', \<lparr>name = ''AI'', description = Some ''machines''\<rparr>)]" "''1''"
        "\<lparr>def_name = Some ''AI'', def_description = Some ''machines''\<rparr>"
        "''machines''" "''ML''"]
  by (simp add: dumpOne_def findDoc_def or_else_def new_id_def)

end
